theory Spec2Isabelle
  imports Main "HOL-Library.Sublist"
begin

section \<open>The DataBackup reconciler of fluid (pkg/controllers/v1alpha1/databackup/implement.go)\<close>

text \<open>
  The reconciler is a set of Go methods that read a snapshot of a DataBackup request and of
  its target Dataset, call collaborators (the cluster client, the runtime probes, helm, the
  process environment) and return a requeue directive.  Each method is embedded as a function
  from its inputs and the answers of the collaborators to the ordered list of calls it makes
  and the value it returns.  Info-level logging is left out of the call list; error-level
  logging and events are part of it.
\<close>

subsection \<open>Data model\<close>

type_synonym Time = int
  \<comment> \<open>an instant (time.Time, metav1.Time), in nanoseconds\<close>

type_synonym Duration = int
  \<comment> \<open>time.Duration, in nanoseconds\<close>

definition Second :: Duration where
  "Second = 1000000000"

datatype error = Error string
  \<comment> \<open>a non-nil Go error; nil is \<open>None\<close> of \<open>error option\<close>\<close>

datatype Phase = PhaseNone | PhasePending | PhaseExecuting | PhaseComplete | PhaseFailed

datatype ConditionType = Complete | Failed

datatype ConditionStatus = ConditionTrue | ConditionFalse | ConditionUnknown

record Condition =
  Condition_Type :: ConditionType
  Condition_Status :: ConditionStatus
  Reason :: string
  Message :: string
  LastProbeTime :: Time
  LastTransitionTime :: Time

record Runtime =
  Runtime_Name :: string
  Runtime_Namespace :: string
  Runtime_Category :: string
  Runtime_Type :: string
  MasterReplicas :: int

record DatasetStatus =
  DataBackupRef :: string
  Runtimes :: "Runtime list"

record Dataset =
  Dataset_Name :: string
  Dataset_Namespace :: string
  Dataset_Status :: DatasetStatus

record User =
  UID :: "int option"
  GID :: "int option"

record DataBackupSpec =
  Spec_Dataset :: string
  BackupPath :: string
  RunAs :: "User option"

record DataBackupStatus =
  Phase :: Phase
  Conditions :: "Condition list"
  Duration :: Duration

record DataBackup =
  DataBackup_Name :: string
  DataBackup_Namespace :: string
  CreationTimestamp :: Time
  DeletionTimestamp :: "Time option"
  Finalizers :: "string list"
  DataBackup_Spec :: DataBackupSpec
  DataBackup_Status :: DataBackupStatus

record PodCondition =
  PodCondition_LastTransitionTime :: Time

record Pod =
  Pod_Name :: string
  Pod_Phase :: string
  Pod_Conditions :: "PodCondition list"

record InitUsersSpec =
  InitUsersSpec_Image :: string
  InitUsersSpec_ImageTag :: string
  InitUsersSpec_ImagePullPolicy :: string

record AlluxioRuntimeSpec =
  AlluxioRuntimeSpec_RunAs :: "User option"
  AlluxioRuntimeSpec_InitUsers :: InitUsersSpec

record InitUsers =
  Enabled :: bool
  InitUsers_Image :: string
  InitUsers_ImageTag :: string
  InitUsers_ImagePullPolicy :: string
  EnvUsers :: string
  Dir :: string

record UserInfo =
  UserInfo_User :: int
  UserInfo_Group :: int
  FSGroup :: int

record DataBackupConfig =
  Config_Namespace :: string
  Config_Dataset :: string
  Config_Name :: string
  NodeName :: string
  Config_Image :: string
  JavaEnv :: string
  Workdir :: string
  RuntimeType :: string
  PVCName :: string
  Path :: string

record DataBackupValue =
  Value_DataBackup :: DataBackupConfig
  Value_UserInfo :: UserInfo
  Value_InitUsers :: InitUsers

datatype panic = IndexOutOfRange int nat | NilPointerDereference
  \<comment> \<open>a Go run-time panic: the index and the length, or a nil pointer\<close>

datatype 'a outcome = Panic panic | Return 'a

record reconcileRequestContext =
  ctx_Namespace :: string
  ctx_DataBackup :: DataBackup
  ctx_Dataset :: Dataset

subsection \<open>What the file uses and does not define\<close>

text \<open>
  The constants of package common and the pure helpers of package utils are declared
  elsewhere in the repository.  They are parameters of the model: every theorem below holds
  for each value they may have.
\<close>

record deps =
  AccelerateCategory :: string
  AlluxioRuntime :: string
  GooseFSRuntime :: string
  AlluxioRuntimeImageEnv :: string
  GooseFSRuntimeImageEnv :: string
  DefaultAlluxioRuntimeImage :: string
  DefaultGooseFSRuntimeImage :: string
  DefaultInitImageEnv :: string
  PathScheme :: string
  VolumeScheme :: string
  RuntimeNotReady :: string
  Finalizer :: string
  DatabackupChart :: string
  GetDataBackupRef :: "string \<Rightarrow> string \<Rightarrow> string"
  GetRuntimeByCategory :: "Runtime list \<Rightarrow> string \<Rightarrow> int \<times> Runtime"
  HasDeletionTimestamp :: "DataBackup \<Rightarrow> bool"
  RemoveString :: "string list \<Rightarrow> string \<Rightarrow> string list"
  GetDataBackupReleaseName :: "string \<Rightarrow> string"
  GetDataBackupPodName :: "string \<Rightarrow> string"
  GetAddressOfMaster :: "Pod \<Rightarrow> string \<times> string \<times> int"
  ParseBackupRestorePath :: "string \<Rightarrow> string \<times> string \<times> error option"
  GetInitUserEnv :: "User \<Rightarrow> string"
  GetBackupUserDir :: "string \<Rightarrow> string \<Rightarrow> string"
  IsSucceededPod :: "Pod \<Rightarrow> bool"
  IsFailedPod :: "Pod \<Rightarrow> bool"

text \<open>
  The answers of the collaborators during one invocation.  A write answers \<open>None\<close> when it is
  accepted and \<open>Some err\<close> when it is rejected; \<open>Now n\<close> is what the \<open>n\<close>-th call of
  time.Now() returns.
\<close>

record env =
  Now :: "nat \<Rightarrow> Time"
  AlluxioReady :: "string \<Rightarrow> string \<Rightarrow> string \<Rightarrow> bool"
  GooseFSReady :: "string \<Rightarrow> string \<Rightarrow> string \<Rightarrow> bool"
  AlluxioMasterPodName :: "string \<Rightarrow> string \<Rightarrow> string \<Rightarrow> string \<times> error option"
  GooseFSMasterPodName :: "string \<Rightarrow> string \<Rightarrow> string \<Rightarrow> string \<times> error option"
  StatusUpdateDataBackup :: "DataBackup \<Rightarrow> error option"
  StatusUpdateDataset :: "Dataset \<Rightarrow> error option"
  UpdateDataBackup :: "DataBackup \<Rightarrow> error option"
  DeleteReleaseIfExists :: "string \<Rightarrow> string \<Rightarrow> error option"
  CheckRelease :: "string \<Rightarrow> string \<Rightarrow> error + bool"
  InstallRelease :: "string \<Rightarrow> string \<Rightarrow> string \<Rightarrow> string \<Rightarrow> error option"
  releaseLockOnTargetDataset :: "reconcileRequestContext \<Rightarrow> error option"
  GetPodByName :: "string \<Rightarrow> string \<Rightarrow> error + Pod"
  GetDataset :: "string \<Rightarrow> string \<Rightarrow> error + Dataset"
  GetAlluxioRuntime :: "string \<Rightarrow> string \<Rightarrow> error + AlluxioRuntimeSpec"
  GetWorkerImage :: "string \<Rightarrow> string \<Rightarrow> string \<Rightarrow> string \<times> string"
  GetImageRepoFromEnv :: "string \<Rightarrow> string"
  GetImageTagFromEnv :: "string \<Rightarrow> string"
  ParseInitImage :: "string \<Rightarrow> string \<Rightarrow> string \<Rightarrow> string \<Rightarrow> string \<times> string \<times> string"
  Getenv :: "string \<Rightarrow> string"
  GetChartsDirectory :: string
  TempDir :: string
  TempFile :: "string \<Rightarrow> string \<Rightarrow> error + string"
  WriteFile :: "string \<Rightarrow> string \<Rightarrow> error option"
  Marshal :: "DataBackupValue \<Rightarrow> error + string"

text \<open>The calls a method makes on its collaborators, in the order it makes them.\<close>

datatype call =
    Status_Update_DataBackup DataBackup
  | Status_Update_Dataset Dataset
  | Update_DataBackup DataBackup
  | Eventf string string string
  | Log_Error string
  | Ready string string string string
  | MasterPodName string string string string
  | Helm_DeleteReleaseIfExists string string
  | Helm_CheckRelease string string
  | Helm_InstallRelease string string string string
  | Release_Lock
  | Get_Pod string string
  | Get_Dataset string string
  | Get_AlluxioRuntime string string
  | Get_WorkerImage string string string
  | Temp_File string string
  | Write_File string string

text \<open>
  The helpers utils.RequeueImmediately, utils.RequeueAfterInterval, utils.RequeueIfError and
  utils.NoRequeue build the pair (ctrl.Result, error) a method returns; the directive is
  kept under the name of the helper that builds it.
\<close>

datatype Result =
    RequeueImmediately
  | RequeueAfterInterval Duration
  | RequeueIfError error
  | NoRequeue

subsection \<open>reconcilePendingDataBackup\<close>

text \<open>
  Step 2 of the method (the switch on the type of the bound runtime): the calls made and the
  value of the local variable \<open>ready\<close> after the switch.
\<close>

definition boundedRuntimeReady :: "deps \<Rightarrow> env \<Rightarrow> Dataset \<Rightarrow> call list \<times> bool" where
  "boundedRuntimeReady d e targetDataset =
    (let (index, boundedRuntime) =
           GetRuntimeByCategory d (Runtimes (Dataset_Status targetDataset)) (AccelerateCategory d);
         podName = Dataset_Name targetDataset @ ''-master-0''
     in
     if Runtime_Type boundedRuntime = AlluxioRuntime d then
       ([Ready (AlluxioRuntime d) podName ''alluxio-master'' (Dataset_Namespace targetDataset)],
        AlluxioReady e podName ''alluxio-master'' (Dataset_Namespace targetDataset))
     else if Runtime_Type boundedRuntime = GooseFSRuntime d then
       ([Ready (GooseFSRuntime d) podName ''goosefs-master'' (Dataset_Namespace targetDataset)],
        GooseFSReady e podName ''goosefs-master'' (Dataset_Namespace targetDataset))
     else
       ([Log_Error ''The runtime is not supported yet'',
         Eventf ''Normal'' (RuntimeNotReady d) ''Bounded accelerate runtime not supported''],
        False))"

text \<open>The locals of the method that its branches share.\<close>

definition myDataBackupRef :: "deps \<Rightarrow> reconcileRequestContext \<Rightarrow> string" where
  "myDataBackupRef d ctx =
     GetDataBackupRef d (DataBackup_Name (ctx_DataBackup ctx)) (DataBackup_Namespace (ctx_DataBackup ctx))"

definition datasetToUpdate :: "deps \<Rightarrow> reconcileRequestContext \<Rightarrow> Dataset" where
  "datasetToUpdate d ctx =
     (ctx_Dataset ctx)\<lparr>Dataset_Status := (Dataset_Status (ctx_Dataset ctx))
        \<lparr>DataBackupRef := myDataBackupRef d ctx\<rparr>\<rparr>"

definition dataBackupToUpdate :: "reconcileRequestContext \<Rightarrow> DataBackup" where
  "dataBackupToUpdate ctx =
     (ctx_DataBackup ctx)\<lparr>DataBackup_Status := (DataBackup_Status (ctx_DataBackup ctx))
        \<lparr>Phase := PhaseExecuting\<rparr>\<rparr>"

text \<open>
  Both Failed branches of the method build the object they write in the same way: a deep copy
  of the request whose conditions are replaced by a single Failed condition and whose phase is
  set to Failed.  The two blocks differ in the reason and the message only.
\<close>

definition databackupToUpdate :: "env \<Rightarrow> reconcileRequestContext \<Rightarrow> string \<Rightarrow> string \<Rightarrow> DataBackup" where
  "databackupToUpdate e ctx reason message =
     (ctx_DataBackup ctx)
       \<lparr>DataBackup_Status := (DataBackup_Status (ctx_DataBackup ctx))
          \<lparr>Conditions :=
             [\<lparr>Condition_Type = Failed,
               Condition_Status = ConditionTrue,
               Reason = reason,
               Message = message,
               LastProbeTime = Now e 0,
               LastTransitionTime = Now e 1\<rparr>],
           Phase := PhaseFailed\<rparr>\<rparr>"

definition reconcilePendingDataBackup ::
  "deps \<Rightarrow> env \<Rightarrow> reconcileRequestContext \<Rightarrow> call list \<times> Result" where
  "reconcilePendingDataBackup d e ctx =
    (let targetDataset = ctx_Dataset ctx;
         conflictDataBackupRef = DataBackupRef (Dataset_Status targetDataset)
     in
     if length conflictDataBackupRef \<noteq> 0 \<and> conflictDataBackupRef \<noteq> myDataBackupRef d ctx then
       (let obj = databackupToUpdate e ctx ''conflictDataBackupRef''
                    ''Found other DataBackup that is in Executing phase''
        in ([Status_Update_DataBackup obj],
            (case StatusUpdateDataBackup e obj of
               Some err \<Rightarrow> RequeueIfError err
             | None \<Rightarrow> RequeueImmediately)))
     else
       (let (probe, ready) = boundedRuntimeReady d e targetDataset
        in
        if \<not> ready then
          (probe @ [Eventf ''Normal'' (RuntimeNotReady d) ''Bounded accelerate runtime not ready''],
           RequeueAfterInterval (20 * Second))
        else if \<not> prefix (PathScheme d) (BackupPath (DataBackup_Spec (ctx_DataBackup ctx)))
              \<and> \<not> prefix (VolumeScheme d) (BackupPath (DataBackup_Spec (ctx_DataBackup ctx))) then
          (let obj = databackupToUpdate e ctx ''PathNotSupported''
                       ''Only support pvc and local path now''
           in (probe @ [Log_Error ''don't support path in this form'',
                        Status_Update_DataBackup obj],
               (case StatusUpdateDataBackup e obj of
                  Some err \<Rightarrow> RequeueIfError err
                | None \<Rightarrow> RequeueImmediately)))
        else if Dataset_Status targetDataset \<noteq> Dataset_Status (datasetToUpdate d ctx)
                \<and> StatusUpdateDataset e (datasetToUpdate d ctx) \<noteq> None then
          (probe @ [Status_Update_Dataset (datasetToUpdate d ctx)], RequeueAfterInterval (20 * Second))
        else
          (let lock = (if Dataset_Status targetDataset \<noteq> Dataset_Status (datasetToUpdate d ctx)
                       then [Status_Update_Dataset (datasetToUpdate d ctx)] else [])
           in
           (case StatusUpdateDataBackup e (dataBackupToUpdate ctx) of
              Some err \<Rightarrow>
                (probe @ lock @ [Status_Update_DataBackup (dataBackupToUpdate ctx),
                                Log_Error ''failed to update cdatabackup's status to Executing, will retry''],
                 RequeueIfError err)
            | None \<Rightarrow>
                (probe @ lock @ [Status_Update_DataBackup (dataBackupToUpdate ctx)],
                 RequeueImmediately)))))"

subsection \<open>ReconcileDataBackupDeletion\<close>

definition ReconcileDataBackupDeletion ::
  "deps \<Rightarrow> env \<Rightarrow> reconcileRequestContext \<Rightarrow> call list \<times> Result" where
  "ReconcileDataBackupDeletion d e ctx =
    (let releaseName = GetDataBackupReleaseName d (DataBackup_Name (ctx_DataBackup ctx));
         step1 = [Helm_DeleteReleaseIfExists releaseName (DataBackup_Namespace (ctx_DataBackup ctx))]
     in
     case DeleteReleaseIfExists e releaseName (DataBackup_Namespace (ctx_DataBackup ctx)) of
       Some err \<Rightarrow> (step1 @ [Log_Error ''can't delete release''], RequeueIfError err)
     | None \<Rightarrow>
        (case releaseLockOnTargetDataset e ctx of
           Some err \<Rightarrow>
             (step1 @ [Release_Lock, Log_Error ''can't release lock on target dataset''],
              RequeueIfError err)
         | None \<Rightarrow>
            if HasDeletionTimestamp d (ctx_DataBackup ctx) then
              (let obj = (ctx_DataBackup ctx)
                     \<lparr>Finalizers := RemoveString d (Finalizers (ctx_DataBackup ctx)) (Finalizer d)\<rparr>
               in case UpdateDataBackup e obj of
                    Some err \<Rightarrow>
                      (step1 @ [Release_Lock, Update_DataBackup obj,
                                Log_Error ''failed to remove finalizer''],
                       RequeueIfError err)
                  | None \<Rightarrow> (step1 @ [Release_Lock, Update_DataBackup obj], NoRequeue))
            else (step1 @ [Release_Lock], NoRequeue)))"

text \<open>The calls of a reconciliation that are steps on a collaborator, error logs left out.\<close>

fun is_log :: "call \<Rightarrow> bool" where
  "is_log (Log_Error msg) = True"
| "is_log _ = False"

definition steps :: "call list \<Rightarrow> call list" where
  "steps calls = filter (\<lambda>x. \<not> is_log x) calls"

subsection \<open>generateDataBackupValueFile\<close>

text \<open>
  strings.Split: the pieces of \<open>s\<close> between the occurrences of a non-empty separator, found
  from the left without overlap.  With an empty separator Go splits after each UTF-8 sequence;
  the bytes are taken here, and the method never passes an empty separator.
\<close>

function genSplit :: "string \<Rightarrow> string \<Rightarrow> string \<Rightarrow> string list" where
  "genSplit sep acc [] = [rev acc]"
| "genSplit sep acc (c # cs) =
     (if sep \<noteq> [] \<and> prefix sep (c # cs)
      then rev acc # genSplit sep [] (drop (length sep) (c # cs))
      else genSplit sep (c # acc) cs)"
  by pat_completeness auto
termination
  by (relation "measure (\<lambda>(sep, acc, s). length s)") auto

definition Split :: "string \<Rightarrow> string \<Rightarrow> string list" where
  "Split s sep = (if sep = [] then map (\<lambda>c. [c]) s else genSplit sep [] s)"

text \<open>strconv.Itoa: the decimal digits of an integer.\<close>

fun digits :: "nat \<Rightarrow> string" where
  "digits n = (if n < 10 then [''0123456789'' ! n]
               else digits (n div 10) @ [''0123456789'' ! (n mod 10)])"

declare digits.simps [simp del]

definition Itoa :: "int \<Rightarrow> string" where
  "Itoa i = (if i < 0 then ''-'' @ digits (nat (- i)) else digits (nat i))"

text \<open>
  The switch on the type of the bound runtime (lines 366 to 382): the calls made and the
  values of imageName, imageTag, javaEnv and runtimeType after it.  The four variables are
  declared empty and the default branch assigns none of them.
\<close>

definition runtimeSwitch ::
  "deps \<Rightarrow> env \<Rightarrow> DataBackup \<Rightarrow> string \<Rightarrow> int \<Rightarrow> Runtime
     \<Rightarrow> call list \<times> string \<times> string \<times> string \<times> string" where
  "runtimeSwitch d e databackup ip rpcPort boundedRuntime =
    (if Runtime_Type boundedRuntime = AlluxioRuntime d then
       (let (imageName, imageTag) =
              GetWorkerImage e (Spec_Dataset (DataBackup_Spec databackup)) (AlluxioRuntime d)
                (DataBackup_Namespace databackup)
        in ([Get_WorkerImage (Spec_Dataset (DataBackup_Spec databackup)) (AlluxioRuntime d)
               (DataBackup_Namespace databackup)],
            imageName, imageTag,
            ''-Dalluxio.master.hostname='' @ ip @ '' -Dalluxio.master.rpc.port='' @ Itoa rpcPort,
            AlluxioRuntime d))
     else if Runtime_Type boundedRuntime = GooseFSRuntime d then
       (let (imageName, imageTag) =
              GetWorkerImage e (Spec_Dataset (DataBackup_Spec databackup)) (GooseFSRuntime d)
                (DataBackup_Namespace databackup)
        in ([Get_WorkerImage (Spec_Dataset (DataBackup_Spec databackup)) (GooseFSRuntime d)
               (DataBackup_Namespace databackup)],
            imageName, imageTag,
            ''-Dgoosefs.master.hostname='' @ ip @ '' -Dgoosefs.master.rpc.port='' @ Itoa rpcPort,
            GooseFSRuntime d))
     else
       ([Log_Error ''The runtime is not supported yet'',
         Eventf ''Normal'' (RuntimeNotReady d) ''Bounded accelerate runtime not supported''],
        [], [], [], []))"

text \<open>
  The values of the locals imageEnv and defaultImage after the if and else-if on runtimeType
  that both fallback blocks start with; they are declared empty and stay so for any other
  runtime type.
\<close>

definition imageEnv :: "deps \<Rightarrow> string \<Rightarrow> string" where
  "imageEnv d runtimeType =
    (if runtimeType = AlluxioRuntime d then AlluxioRuntimeImageEnv d
     else if runtimeType = GooseFSRuntime d then GooseFSRuntimeImageEnv d
     else [])"

definition defaultImage :: "deps \<Rightarrow> string \<Rightarrow> string" where
  "defaultImage d runtimeType =
    (if runtimeType = AlluxioRuntime d then DefaultAlluxioRuntimeImage d
     else if runtimeType = GooseFSRuntime d then DefaultGooseFSRuntimeImage d
     else [])"

text \<open>
  The fallback for the image name (lines 384 to 402).  \<open>None\<close> is the bare return of line
  397, which leaves the method with both named results as they are.
\<close>

definition resolveImageName :: "deps \<Rightarrow> env \<Rightarrow> string \<Rightarrow> string \<Rightarrow> call list \<times> string option" where
  "resolveImageName d e runtimeType imageName =
    (if length imageName = 0 then
       (let fromEnv = GetImageRepoFromEnv e (imageEnv d runtimeType) in
        if length fromEnv = 0 then
          (let defaultImageInfo = Split (defaultImage d runtimeType) '':'' in
           if length defaultImageInfo < 1
           then ([Log_Error ''invalid default databackup image!''], None)
           else ([], Some (defaultImageInfo ! 0)))
        else ([], Some fromEnv))
     else ([], Some imageName))"

text \<open>
  The fallback for the image tag (lines 404 to 422).  The index expression of line 419 panics
  when the slice has no element of index 1.
\<close>

definition resolveImageTag ::
  "deps \<Rightarrow> env \<Rightarrow> string \<Rightarrow> string \<Rightarrow> call list \<times> string option outcome" where
  "resolveImageTag d e runtimeType imageTag =
    (if length imageTag = 0 then
       (let fromEnv = GetImageTagFromEnv e (imageEnv d runtimeType) in
        if length fromEnv = 0 then
          (let defaultImageInfo = Split (defaultImage d runtimeType) '':'' in
           if length defaultImageInfo < 1
           then ([Log_Error ''invalid default databackup image!''], Return None)
           else if 1 < length defaultImageInfo
           then ([], Return (Some (defaultImageInfo ! 1)))
           else ([], Panic (IndexOutOfRange 1 (length defaultImageInfo))))
        else ([], Return (Some fromEnv)))
     else ([], Return (Some imageTag)))"

text \<open>
  The rest of the method (lines 424 to 501): the value is built, marshalled and written to a
  temporary file.  A result is the pair of the named results valueFileName and err.
\<close>

definition writeValueFile ::
  "deps \<Rightarrow> env \<Rightarrow> DataBackup \<Rightarrow> string \<Rightarrow> string \<Rightarrow> string \<Rightarrow> string
     \<Rightarrow> call list \<times> (string \<times> error option) outcome" where
  "writeValueFile d e databackup nodeName img javaEnv runtimeType =
    (let workdir = (if Getenv e ''FLUID_WORKDIR'' = [] then ''/tmp'' else Getenv e ''FLUID_WORKDIR'');
         dataBackup =
           \<lparr>Config_Namespace = DataBackup_Namespace databackup,
            Config_Dataset = Spec_Dataset (DataBackup_Spec databackup),
            Config_Name = DataBackup_Name databackup,
            NodeName = nodeName,
            Config_Image = img,
            JavaEnv = javaEnv,
            Workdir = workdir,
            RuntimeType = runtimeType,
            PVCName = [],
            Path = []\<rparr>;
         (pvcName, path, err) = ParseBackupRestorePath d (BackupPath (DataBackup_Spec databackup))
     in
     case err of
       Some err \<Rightarrow> ([], Return ([], Some err))
     | None \<Rightarrow>
        (let dataBackup = dataBackup\<lparr>PVCName := pvcName, Path := path\<rparr>;
             get = [Get_AlluxioRuntime (DataBackup_Namespace databackup)
                      (Spec_Dataset (DataBackup_Spec databackup))];
             runtime =
               (case GetAlluxioRuntime e (DataBackup_Namespace databackup)
                       (Spec_Dataset (DataBackup_Spec databackup)) of
                  Inl err \<Rightarrow>
                    \<lparr>AlluxioRuntimeSpec_RunAs = None,
                     AlluxioRuntimeSpec_InitUsers =
                       \<lparr>InitUsersSpec_Image = [], InitUsersSpec_ImageTag = [],
                        InitUsersSpec_ImagePullPolicy = []\<rparr>\<rparr>
                | Inr found \<Rightarrow> found);
             runAs = (case RunAs (DataBackup_Spec databackup) of
                        Some user \<Rightarrow> Some user
                      | None \<Rightarrow> AlluxioRuntimeSpec_RunAs runtime);
             (initImage, initImageTag, initImagePullPolicy) =
               ParseInitImage e (InitUsersSpec_Image (AlluxioRuntimeSpec_InitUsers runtime))
                 (InitUsersSpec_ImageTag (AlluxioRuntimeSpec_InitUsers runtime))
                 (InitUsersSpec_ImagePullPolicy (AlluxioRuntimeSpec_InitUsers runtime))
                 (DefaultInitImageEnv d);
             users =
               (case runAs of
                  None \<Rightarrow>
                    Return (\<lparr>UserInfo_User = 0, UserInfo_Group = 0, FSGroup = 0\<rparr>,
                            \<lparr>Enabled = False, InitUsers_Image = [], InitUsers_ImageTag = [],
                             InitUsers_ImagePullPolicy = [], EnvUsers = [], Dir = []\<rparr>)
                | Some user \<Rightarrow>
                   (case UID user of
                      None \<Rightarrow> Panic NilPointerDereference
                    | Some uid \<Rightarrow>
                       (case GID user of
                          None \<Rightarrow> Panic NilPointerDereference
                        | Some gid \<Rightarrow>
                            Return (\<lparr>UserInfo_User = uid, UserInfo_Group = gid, FSGroup = 0\<rparr>,
                                    \<lparr>Enabled = True, InitUsers_Image = [], InitUsers_ImageTag = [],
                                     InitUsers_ImagePullPolicy = [],
                                     EnvUsers = GetInitUserEnv d user,
                                     Dir = GetBackupUserDir d (Config_Namespace dataBackup)
                                             (Config_Name dataBackup)\<rparr>))))
         in
         case users of
           Panic p \<Rightarrow> (get, Panic p)
         | Return (userInfo, initUsers) \<Rightarrow>
            (let dataBackupValue =
                   \<lparr>Value_DataBackup = dataBackup,
                    Value_UserInfo = userInfo,
                    Value_InitUsers = initUsers
                      \<lparr>InitUsers_Image := initImage, InitUsers_ImageTag := initImageTag,
                       InitUsers_ImagePullPolicy := initImagePullPolicy\<rparr>\<rparr>;
                 pattern = DataBackup_Namespace databackup @ ''-'' @ DataBackup_Name databackup
                             @ ''-'' @ RuntimeType dataBackup @ ''-backuper-values.yaml''
             in
             case Marshal e dataBackupValue of
               Inl err \<Rightarrow> (get, Return ([], Some err))
             | Inr data \<Rightarrow>
                (case TempFile e (TempDir e) pattern of
                   Inl err \<Rightarrow> (get @ [Temp_File (TempDir e) pattern], Return ([], Some err))
                 | Inr valueFile \<Rightarrow>
                    (case WriteFile e valueFile data of
                       Some err \<Rightarrow>
                         (get @ [Temp_File (TempDir e) pattern, Write_File valueFile data],
                          Return ([], Some err))
                     | None \<Rightarrow>
                         (get @ [Temp_File (TempDir e) pattern, Write_File valueFile data],
                          Return (valueFile, None)))))))"

definition generateDataBackupValueFile ::
  "deps \<Rightarrow> env \<Rightarrow> reconcileRequestContext \<Rightarrow> Pod
     \<Rightarrow> call list \<times> (string \<times> error option) outcome" where
  "generateDataBackupValueFile d e ctx masterPod =
    (let databackup = ctx_DataBackup ctx;
         (nodeName, ip, rpcPort) = GetAddressOfMaster d masterPod;
         get = [Get_Dataset (Spec_Dataset (DataBackup_Spec databackup)) (DataBackup_Namespace databackup)]
     in
     case GetDataset e (Spec_Dataset (DataBackup_Spec databackup)) (DataBackup_Namespace databackup) of
       Inl err \<Rightarrow> (get, Return ([], Some err))
     | Inr targetDataset \<Rightarrow>
        (let (index, boundedRuntime) =
               GetRuntimeByCategory d (Runtimes (Dataset_Status targetDataset)) (AccelerateCategory d)
         in
         if index = - 1 then
           (get, Return ([], Some (Error
              ''bounded runtime with Accelerate Category is not found on the target dataset'')))
         else
           (let (switch, imageName, imageTag, javaEnv, runtimeType) =
                  runtimeSwitch d e databackup ip rpcPort boundedRuntime;
                (nameLog, name) = resolveImageName d e runtimeType imageName
            in
            case name of
              None \<Rightarrow> (get @ switch @ nameLog, Return ([], None))
            | Some imageName \<Rightarrow>
               (let (tagLog, tag) = resolveImageTag d e runtimeType imageTag
                in
                case tag of
                  Panic p \<Rightarrow> (get @ switch @ nameLog @ tagLog, Panic p)
                | Return None \<Rightarrow> (get @ switch @ nameLog @ tagLog, Return ([], None))
                | Return (Some imageTag) \<Rightarrow>
                   (let (write, result) =
                          writeValueFile d e databackup nodeName (imageName @ '':'' @ imageTag)
                            javaEnv runtimeType
                    in (get @ switch @ nameLog @ tagLog @ write, result))))))"

subsection \<open>The cluster behind the client\<close>

text \<open>
  The cluster resource client belongs to controller-runtime.  Its writes are conditional: an
  accepted status write replaces the stored status of the object, an accepted update replaces
  its metadata and spec, and a rejected write stores nothing.  Only these three writes are
  interpreted; the lock release of the deletion path is a method declared outside this file,
  and what it writes is not part of the model.
\<close>

record cluster =
  stored_DataBackup :: DataBackup
  stored_Dataset :: Dataset

fun commit :: "env \<Rightarrow> cluster \<Rightarrow> call \<Rightarrow> cluster" where
  "commit e c (Status_Update_DataBackup obj) =
     (if StatusUpdateDataBackup e obj = None
      then c\<lparr>stored_DataBackup := (stored_DataBackup c)\<lparr>DataBackup_Status := DataBackup_Status obj\<rparr>\<rparr>
      else c)"
| "commit e c (Status_Update_Dataset obj) =
     (if StatusUpdateDataset e obj = None
      then c\<lparr>stored_Dataset := (stored_Dataset c)\<lparr>Dataset_Status := Dataset_Status obj\<rparr>\<rparr>
      else c)"
| "commit e c (Update_DataBackup obj) =
     (if UpdateDataBackup e obj = None
      then c\<lparr>stored_DataBackup := obj\<lparr>DataBackup_Status := DataBackup_Status (stored_DataBackup c)\<rparr>\<rparr>
      else c)"
| "commit e c _ = c"

definition cluster_after :: "env \<Rightarrow> cluster \<Rightarrow> call list \<Rightarrow> cluster" where
  "cluster_after e c calls = foldl (commit e) c calls"


fun is_request_write :: "call \<Rightarrow> bool" where
  "is_request_write (Status_Update_DataBackup obj) = True"
| "is_request_write (Update_DataBackup obj) = True"
| "is_request_write _ = False"

text \<open>A status write that records the terminal phase Failed with the single reason \<open>r\<close>.\<close>

fun records_failure :: "string \<Rightarrow> call \<Rightarrow> bool" where
  "records_failure r (Status_Update_DataBackup obj) =
     (Phase (DataBackup_Status obj) = PhaseFailed
      \<and> map Reason (Conditions (DataBackup_Status obj)) = [r])"
| "records_failure r _ = False"

subsection \<open>Sample values\<close>

text \<open>
  One value of the parameters and a few requests, datasets and collaborators, on which the
  model is run.
\<close>

definition sample_deps :: deps where
  "sample_deps =
    \<lparr>AccelerateCategory = ''Accelerate'',
     AlluxioRuntime = ''alluxio'',
     GooseFSRuntime = ''goosefs'',
     AlluxioRuntimeImageEnv = ''ALLUXIO_RUNTIME_IMAGE_ENV'',
     GooseFSRuntimeImageEnv = ''GOOSEFS_RUNTIME_IMAGE_ENV'',
     DefaultAlluxioRuntimeImage = ''registry.example/alluxio/alluxio:2.3.0'',
     DefaultGooseFSRuntimeImage = ''registry.example/goosefs/goosefs:v1.0.1'',
     DefaultInitImageEnv = ''DEFAULT_INIT_IMAGE_ENV'',
     PathScheme = ''pvc://'',
     VolumeScheme = ''local://'',
     RuntimeNotReady = ''RuntimeNotReady'',
     Finalizer = ''fluid-databackup-controller-finalizer'',
     DatabackupChart = ''fluid-databackup'',
     GetDataBackupRef = (\<lambda>name namespace. namespace @ ''-'' @ name),
     GetRuntimeByCategory = (\<lambda>runtimes category.
        case filter (\<lambda>r. Runtime_Category r = category) runtimes of
          [] \<Rightarrow> (- 1, \<lparr>Runtime_Name = [], Runtime_Namespace = [], Runtime_Category = [],
                      Runtime_Type = [], MasterReplicas = 0\<rparr>)
        | r # rs \<Rightarrow> (0, r)),
     HasDeletionTimestamp = (\<lambda>obj. DeletionTimestamp obj \<noteq> None),
     RemoveString = (\<lambda>xs x. filter (\<lambda>y. y \<noteq> x) xs),
     GetDataBackupReleaseName = (\<lambda>name. name @ ''-charts''),
     GetDataBackupPodName = (\<lambda>name. name @ ''-pod''),
     GetAddressOfMaster = (\<lambda>pod. (''node-1'', ''10.0.0.7'', 19998)),
     ParseBackupRestorePath = (\<lambda>path. (''claim'', ''/sub'', None)),
     GetInitUserEnv = (\<lambda>user. []),
     GetBackupUserDir = (\<lambda>namespace name. ''/tmp/backupuser/'' @ namespace @ ''/'' @ name),
     IsSucceededPod = (\<lambda>pod. Pod_Phase pod = ''Succeeded''),
     IsFailedPod = (\<lambda>pod. Pod_Phase pod = ''Failed'')\<rparr>"

definition sample_pod :: "string \<Rightarrow> string \<Rightarrow> Time list \<Rightarrow> Pod" where
  "sample_pod name phase transitions =
    \<lparr>Pod_Name = name, Pod_Phase = phase,
     Pod_Conditions = map (\<lambda>t. \<lparr>PodCondition_LastTransitionTime = t\<rparr>) transitions\<rparr>"

definition sample_env :: "error option \<Rightarrow> error option \<Rightarrow> env" where
  "sample_env request_write dataset_write =
    \<lparr>Now = (\<lambda>n. 1000 + int n),
     AlluxioReady = (\<lambda>pod container namespace. True),
     GooseFSReady = (\<lambda>pod container namespace. True),
     AlluxioMasterPodName = (\<lambda>pod container namespace. (''d-master-2'', None)),
     GooseFSMasterPodName = (\<lambda>pod container namespace. (''d-master-1'', None)),
     StatusUpdateDataBackup = (\<lambda>obj. request_write),
     StatusUpdateDataset = (\<lambda>obj. dataset_write),
     UpdateDataBackup = (\<lambda>obj. None),
     DeleteReleaseIfExists = (\<lambda>name namespace. None),
     CheckRelease = (\<lambda>name namespace. Inr True),
     InstallRelease = (\<lambda>name namespace valueFile chart. None),
     releaseLockOnTargetDataset = (\<lambda>ctx. None),
     GetPodByName = (\<lambda>name namespace. Inr (sample_pod name ''Running'' [])),
     GetDataset = (\<lambda>name namespace. Inl (Error ''not found'')),
     GetAlluxioRuntime = (\<lambda>namespace name. Inl (Error ''not found'')),
     GetWorkerImage = (\<lambda>dataset runtimeType namespace. ([], [])),
     GetImageRepoFromEnv = (\<lambda>name. []),
     GetImageTagFromEnv = (\<lambda>name. []),
     ParseInitImage = (\<lambda>image tag policy envName. (''init-users'', ''v1'', ''IfNotPresent'')),
     Getenv = (\<lambda>name. []),
     GetChartsDirectory = ''/charts'',
     TempDir = ''/tmp'',
     TempFile = (\<lambda>dir pattern. Inr (dir @ ''/'' @ pattern @ ''42'')),
     WriteFile = (\<lambda>name data. None),
     Marshal = (\<lambda>v. Inr (''image: '' @ Config_Image (Value_DataBackup v)))\<rparr>"

definition sample_request :: "string \<Rightarrow> string \<Rightarrow> DataBackup" where
  "sample_request name path =
    \<lparr>DataBackup_Name = name,
     DataBackup_Namespace = ''default'',
     CreationTimestamp = 400,
     DeletionTimestamp = None,
     Finalizers = [''fluid-databackup-controller-finalizer''],
     DataBackup_Spec = \<lparr>Spec_Dataset = ''d'', BackupPath = path, RunAs = None\<rparr>,
     DataBackup_Status = \<lparr>Phase = PhasePending, Conditions = [], Duration = 0\<rparr>\<rparr>"

definition sample_dataset :: "string \<Rightarrow> string \<Rightarrow> Dataset" where
  "sample_dataset ref runtime_type =
    \<lparr>Dataset_Name = ''d'',
     Dataset_Namespace = ''default'',
     Dataset_Status =
       \<lparr>DataBackupRef = ref,
        Runtimes = [\<lparr>Runtime_Name = ''d'', Runtime_Namespace = ''default'',
                     Runtime_Category = ''Accelerate'', Runtime_Type = runtime_type,
                     MasterReplicas = 1\<rparr>]\<rparr>\<rparr>"

definition sample_ctx :: "DataBackup \<Rightarrow> Dataset \<Rightarrow> reconcileRequestContext" where
  "sample_ctx request dataset =
    \<lparr>ctx_Namespace = ''default'', ctx_DataBackup = request, ctx_Dataset = dataset\<rparr>"

definition sample_cluster :: "DataBackup \<Rightarrow> Dataset \<Rightarrow> cluster" where
  "sample_cluster request dataset = \<lparr>stored_DataBackup = request, stored_Dataset = dataset\<rparr>"

section \<open>Properties\<close>

subsection \<open>The branches of reconcilePendingDataBackup\<close>

lemma probe_commit: "foldl (commit e) c (fst (boundedRuntimeReady d e ds)) = c"
  by (simp add: boundedRuntimeReady_def Let_def case_prod_beta)

lemma probe_no_failure: "x \<in> set (fst (boundedRuntimeReady d e ds)) \<Longrightarrow> \<not> records_failure s x"
  by (auto simp: boundedRuntimeReady_def Let_def case_prod_beta split: if_splits)


lemma probe_no_request_write: "x \<in> set (fst (boundedRuntimeReady d e ds)) \<Longrightarrow> \<not> is_request_write x"
  by (auto simp: boundedRuntimeReady_def Let_def case_prod_beta split: if_splits)

lemma status_differs:
  "(Dataset_Status (ctx_Dataset ctx) \<noteq> Dataset_Status (datasetToUpdate d ctx))
     = (DataBackupRef (Dataset_Status (ctx_Dataset ctx)) \<noteq> myDataBackupRef d ctx)"
  by (cases "Dataset_Status (ctx_Dataset ctx)") (auto simp: datasetToUpdate_def)

lemma datasetToUpdate_ref:
  "DataBackupRef (Dataset_Status (datasetToUpdate d ctx)) = myDataBackupRef d ctx"
  by (simp add: datasetToUpdate_def)

lemma dataBackupToUpdate_phase:
  "Phase (DataBackup_Status (dataBackupToUpdate ctx)) = PhaseExecuting"
  by (simp add: dataBackupToUpdate_def)

lemma databackupToUpdate_phase:
  "Phase (DataBackup_Status (databackupToUpdate e ctx r m)) = PhaseFailed"
  by (simp add: databackupToUpdate_def)

lemma databackupToUpdate_reason:
  "map Reason (Conditions (DataBackup_Status (databackupToUpdate e ctx r m))) = [r]"
  by (simp add: databackupToUpdate_def)

lemma pending_conflict:
  assumes "DataBackupRef (Dataset_Status (ctx_Dataset ctx)) \<noteq> []"
      and "DataBackupRef (Dataset_Status (ctx_Dataset ctx)) \<noteq> myDataBackupRef d ctx"
  shows "reconcilePendingDataBackup d e ctx =
           ([Status_Update_DataBackup (databackupToUpdate e ctx ''conflictDataBackupRef''
                    ''Found other DataBackup that is in Executing phase'')],
            (case StatusUpdateDataBackup e (databackupToUpdate e ctx ''conflictDataBackupRef''
                    ''Found other DataBackup that is in Executing phase'') of
               Some err \<Rightarrow> RequeueIfError err | None \<Rightarrow> RequeueImmediately))"
  using assms by (simp add: reconcilePendingDataBackup_def Let_def)

lemma pending_not_ready:
  assumes "DataBackupRef (Dataset_Status (ctx_Dataset ctx)) = []
           \<or> DataBackupRef (Dataset_Status (ctx_Dataset ctx)) = myDataBackupRef d ctx"
      and "\<not> snd (boundedRuntimeReady d e (ctx_Dataset ctx))"
  shows "reconcilePendingDataBackup d e ctx =
           (fst (boundedRuntimeReady d e (ctx_Dataset ctx))
              @ [Eventf ''Normal'' (RuntimeNotReady d) ''Bounded accelerate runtime not ready''],
            RequeueAfterInterval (20 * Second))"
  using assms by (auto simp add: reconcilePendingDataBackup_def Let_def case_prod_beta)

lemma pending_bad_path:
  assumes "DataBackupRef (Dataset_Status (ctx_Dataset ctx)) = []
           \<or> DataBackupRef (Dataset_Status (ctx_Dataset ctx)) = myDataBackupRef d ctx"
      and "snd (boundedRuntimeReady d e (ctx_Dataset ctx))"
      and "\<not> prefix (PathScheme d) (BackupPath (DataBackup_Spec (ctx_DataBackup ctx)))"
      and "\<not> prefix (VolumeScheme d) (BackupPath (DataBackup_Spec (ctx_DataBackup ctx)))"
  shows "reconcilePendingDataBackup d e ctx =
           (fst (boundedRuntimeReady d e (ctx_Dataset ctx))
              @ [Log_Error ''don't support path in this form'',
                 Status_Update_DataBackup (databackupToUpdate e ctx ''PathNotSupported''
                       ''Only support pvc and local path now'')],
            (case StatusUpdateDataBackup e (databackupToUpdate e ctx ''PathNotSupported''
                       ''Only support pvc and local path now'') of
               Some err \<Rightarrow> RequeueIfError err | None \<Rightarrow> RequeueImmediately))"
  using assms by (auto simp add: reconcilePendingDataBackup_def Let_def case_prod_beta)

lemma pending_lock_rejected:
  assumes "DataBackupRef (Dataset_Status (ctx_Dataset ctx)) = []"
      and "DataBackupRef (Dataset_Status (ctx_Dataset ctx)) \<noteq> myDataBackupRef d ctx"
      and "snd (boundedRuntimeReady d e (ctx_Dataset ctx))"
      and "prefix (PathScheme d) (BackupPath (DataBackup_Spec (ctx_DataBackup ctx)))
           \<or> prefix (VolumeScheme d) (BackupPath (DataBackup_Spec (ctx_DataBackup ctx)))"
      and "StatusUpdateDataset e (datasetToUpdate d ctx) \<noteq> None"
  shows "reconcilePendingDataBackup d e ctx =
           (fst (boundedRuntimeReady d e (ctx_Dataset ctx)) @ [Status_Update_Dataset (datasetToUpdate d ctx)],
            RequeueAfterInterval (20 * Second))"
  using assms by (auto simp add: reconcilePendingDataBackup_def Let_def case_prod_beta status_differs)

lemma pending_lock_taken:
  assumes "DataBackupRef (Dataset_Status (ctx_Dataset ctx)) = []"
      and "DataBackupRef (Dataset_Status (ctx_Dataset ctx)) \<noteq> myDataBackupRef d ctx"
      and "snd (boundedRuntimeReady d e (ctx_Dataset ctx))"
      and "prefix (PathScheme d) (BackupPath (DataBackup_Spec (ctx_DataBackup ctx)))
           \<or> prefix (VolumeScheme d) (BackupPath (DataBackup_Spec (ctx_DataBackup ctx)))"
      and "StatusUpdateDataset e (datasetToUpdate d ctx) = None"
  shows "reconcilePendingDataBackup d e ctx =
           (case StatusUpdateDataBackup e (dataBackupToUpdate ctx) of
              Some err \<Rightarrow>
                (fst (boundedRuntimeReady d e (ctx_Dataset ctx))
                   @ [Status_Update_Dataset (datasetToUpdate d ctx),
                      Status_Update_DataBackup (dataBackupToUpdate ctx),
                      Log_Error ''failed to update cdatabackup's status to Executing, will retry''],
                 RequeueIfError err)
            | None \<Rightarrow>
                (fst (boundedRuntimeReady d e (ctx_Dataset ctx))
                   @ [Status_Update_Dataset (datasetToUpdate d ctx),
                      Status_Update_DataBackup (dataBackupToUpdate ctx)],
                 RequeueImmediately))"
  using assms by (auto simp add: reconcilePendingDataBackup_def Let_def case_prod_beta status_differs split: option.splits)

lemma pending_lock_held:
  assumes "DataBackupRef (Dataset_Status (ctx_Dataset ctx)) = myDataBackupRef d ctx"
      and "snd (boundedRuntimeReady d e (ctx_Dataset ctx))"
      and "prefix (PathScheme d) (BackupPath (DataBackup_Spec (ctx_DataBackup ctx)))
           \<or> prefix (VolumeScheme d) (BackupPath (DataBackup_Spec (ctx_DataBackup ctx)))"
  shows "reconcilePendingDataBackup d e ctx =
           (case StatusUpdateDataBackup e (dataBackupToUpdate ctx) of
              Some err \<Rightarrow>
                (fst (boundedRuntimeReady d e (ctx_Dataset ctx))
                   @ [Status_Update_DataBackup (dataBackupToUpdate ctx),
                      Log_Error ''failed to update cdatabackup's status to Executing, will retry''],
                 RequeueIfError err)
            | None \<Rightarrow>
                (fst (boundedRuntimeReady d e (ctx_Dataset ctx))
                   @ [Status_Update_DataBackup (dataBackupToUpdate ctx)],
                 RequeueImmediately))"
  using assms by (auto simp add: reconcilePendingDataBackup_def Let_def case_prod_beta status_differs split: option.splits)

subsection \<open>The sample values, evaluated\<close>

lemma sample_ref [simp]:
  "DataBackupRef (Dataset_Status (ctx_Dataset (sample_ctx rq (sample_dataset r t)))) = r"
  by (simp add: sample_ctx_def sample_dataset_def)

lemma sample_my [simp]:
  "myDataBackupRef sample_deps (sample_ctx (sample_request n p) ds) = ''default-'' @ n"
  by (simp add: myDataBackupRef_def sample_deps_def sample_ctx_def sample_request_def)

lemma sample_path [simp]:
  "BackupPath (DataBackup_Spec (ctx_DataBackup (sample_ctx (sample_request n p) ds))) = p"
  by (simp add: sample_ctx_def sample_request_def)

lemma sample_schemes [simp]:
  "PathScheme sample_deps = ''pvc://''" "VolumeScheme sample_deps = ''local://''"
  by (simp_all add: sample_deps_def)

lemma sample_writes [simp]:
  "StatusUpdateDataBackup (sample_env a b) obj = a"
  "StatusUpdateDataset (sample_env a b) ds = b"
  by (simp_all add: sample_env_def)

lemma sample_probe_alluxio [simp]:
  "boundedRuntimeReady sample_deps (sample_env a b) (ctx_Dataset (sample_ctx rq (sample_dataset r ''alluxio'')))
     = ([Ready ''alluxio'' ''d-master-0'' ''alluxio-master'' ''default''], True)"
  by (simp add: boundedRuntimeReady_def sample_deps_def sample_env_def sample_ctx_def sample_dataset_def)

lemma sample_probe_other [simp]:
  "boundedRuntimeReady sample_deps (sample_env a b) (ctx_Dataset (sample_ctx rq (sample_dataset r ''jindo'')))
     = ([Log_Error ''The runtime is not supported yet'',
         Eventf ''Normal'' ''RuntimeNotReady'' ''Bounded accelerate runtime not supported''], False)"
  by (simp add: boundedRuntimeReady_def sample_deps_def sample_env_def sample_ctx_def sample_dataset_def)

lemma sample_stored [simp]:
  "stored_DataBackup (sample_cluster rq ds) = rq" "stored_Dataset (sample_cluster rq ds) = ds"
  by (simp_all add: sample_cluster_def)

lemma sample_phase [simp]:
  "Phase (DataBackup_Status (sample_request n p)) = PhasePending"
  by (simp add: sample_request_def)

subsection \<open>Conflict detection (C1)\<close>

lemma no_conflict_no_conflict_failure:
  assumes nc: "DataBackupRef (Dataset_Status (ctx_Dataset ctx)) = []
           \<or> DataBackupRef (Dataset_Status (ctx_Dataset ctx)) = myDataBackupRef d ctx"
  shows "\<not> list_ex (records_failure ''conflictDataBackupRef'') (fst (reconcilePendingDataBackup d e ctx))"
proof (cases "snd (boundedRuntimeReady d e (ctx_Dataset ctx))")
  case False
  show ?thesis
    by (simp add: pending_not_ready [OF nc False] list_ex_iff probe_no_failure)
next
  case ready: True
  show ?thesis
  proof (cases "prefix (PathScheme d) (BackupPath (DataBackup_Spec (ctx_DataBackup ctx)))
           \<or> prefix (VolumeScheme d) (BackupPath (DataBackup_Spec (ctx_DataBackup ctx)))")
    case False
    then have p1: "\<not> prefix (PathScheme d) (BackupPath (DataBackup_Spec (ctx_DataBackup ctx)))"
      and p2: "\<not> prefix (VolumeScheme d) (BackupPath (DataBackup_Spec (ctx_DataBackup ctx)))"
      by simp_all
    show ?thesis
      by (simp add: pending_bad_path [OF nc ready p1 p2] list_ex_iff probe_no_failure
                    databackupToUpdate_reason)
  next
    case path: True
    show ?thesis
    proof (cases "DataBackupRef (Dataset_Status (ctx_Dataset ctx)) = myDataBackupRef d ctx")
      case True
      show ?thesis
        by (simp add: pending_lock_held [OF True ready path] list_ex_iff probe_no_failure
                      dataBackupToUpdate_phase split: option.splits)
    next
      case False
      with nc have empty: "DataBackupRef (Dataset_Status (ctx_Dataset ctx)) = []" by simp
      show ?thesis
      proof (cases "StatusUpdateDataset e (datasetToUpdate d ctx)")
        case None
        show ?thesis
          by (simp add: pending_lock_taken [OF empty False ready path None] list_ex_iff
                        probe_no_failure dataBackupToUpdate_phase split: option.splits)
      next
        case (Some err)
        then have rej: "StatusUpdateDataset e (datasetToUpdate d ctx) \<noteq> None" by simp
        show ?thesis
          by (simp add: pending_lock_rejected [OF empty False ready path rej] list_ex_iff
                        probe_no_failure)
      qed
    qed
  qed
qed

text \<open>
  C1, as amended.  A Pending reconciliation writes the terminal status Failed with the single
  reason conflictDataBackupRef exactly when the DataBackupRef of the dataset is non-empty and
  differs from the reference of the request.  In that case this status write is the only call
  of the reconciliation and the dataset is left as it was; when the write is accepted the
  stored status is the Failed one and the reconciler requeues immediately, and when the write is
  rejected the stored request is unchanged and the error is returned for a requeue.
\<close>

theorem pending_conflict_outcome:
  "(list_ex (records_failure ''conflictDataBackupRef'') (fst (reconcilePendingDataBackup d e ctx))
     = (DataBackupRef (Dataset_Status (ctx_Dataset ctx)) \<noteq> []
        \<and> DataBackupRef (Dataset_Status (ctx_Dataset ctx)) \<noteq> myDataBackupRef d ctx))
   \<and> (DataBackupRef (Dataset_Status (ctx_Dataset ctx)) \<noteq> []
        \<and> DataBackupRef (Dataset_Status (ctx_Dataset ctx)) \<noteq> myDataBackupRef d ctx
      \<longrightarrow> (\<exists>obj. fst (reconcilePendingDataBackup d e ctx) = [Status_Update_DataBackup obj]
             \<and> Phase (DataBackup_Status obj) = PhaseFailed
             \<and> map Reason (Conditions (DataBackup_Status obj)) = [''conflictDataBackupRef'']
             \<and> (case StatusUpdateDataBackup e obj of
                  None \<Rightarrow> snd (reconcilePendingDataBackup d e ctx) = RequeueImmediately
                    \<and> DataBackup_Status (stored_DataBackup (cluster_after e c (fst (reconcilePendingDataBackup d e ctx))))
                        = DataBackup_Status obj
                | Some err \<Rightarrow> snd (reconcilePendingDataBackup d e ctx) = RequeueIfError err
                    \<and> stored_DataBackup (cluster_after e c (fst (reconcilePendingDataBackup d e ctx)))
                        = stored_DataBackup c))
          \<and> stored_Dataset (cluster_after e c (fst (reconcilePendingDataBackup d e ctx))) = stored_Dataset c)"
proof (cases "DataBackupRef (Dataset_Status (ctx_Dataset ctx)) \<noteq> []
        \<and> DataBackupRef (Dataset_Status (ctx_Dataset ctx)) \<noteq> myDataBackupRef d ctx")
  case True
  then have ne: "DataBackupRef (Dataset_Status (ctx_Dataset ctx)) \<noteq> []"
    and other: "DataBackupRef (Dataset_Status (ctx_Dataset ctx)) \<noteq> myDataBackupRef d ctx"
    by simp_all
  note run = pending_conflict [OF ne other, of e]
  let ?obj = "databackupToUpdate e ctx ''conflictDataBackupRef''
                ''Found other DataBackup that is in Executing phase''"
  have a: "list_ex (records_failure ''conflictDataBackupRef'') (fst (reconcilePendingDataBackup d e ctx))"
    by (simp add: run databackupToUpdate_phase databackupToUpdate_reason)
  have b: "stored_Dataset (cluster_after e c (fst (reconcilePendingDataBackup d e ctx))) = stored_Dataset c"
    by (simp add: run cluster_after_def)
  have c: "case StatusUpdateDataBackup e ?obj of
                  None \<Rightarrow> snd (reconcilePendingDataBackup d e ctx) = RequeueImmediately
                    \<and> DataBackup_Status (stored_DataBackup (cluster_after e c (fst (reconcilePendingDataBackup d e ctx))))
                        = DataBackup_Status ?obj
                | Some err \<Rightarrow> snd (reconcilePendingDataBackup d e ctx) = RequeueIfError err
                    \<and> stored_DataBackup (cluster_after e c (fst (reconcilePendingDataBackup d e ctx)))
                        = stored_DataBackup c"
    by (simp add: run cluster_after_def split: option.splits)
  have d: "fst (reconcilePendingDataBackup d e ctx) = [Status_Update_DataBackup ?obj]"
    by (simp add: run)
  have "\<exists>obj. fst (reconcilePendingDataBackup d e ctx) = [Status_Update_DataBackup obj]
             \<and> Phase (DataBackup_Status obj) = PhaseFailed
             \<and> map Reason (Conditions (DataBackup_Status obj)) = [''conflictDataBackupRef'']
             \<and> (case StatusUpdateDataBackup e obj of
                  None \<Rightarrow> snd (reconcilePendingDataBackup d e ctx) = RequeueImmediately
                    \<and> DataBackup_Status (stored_DataBackup (cluster_after e c (fst (reconcilePendingDataBackup d e ctx))))
                        = DataBackup_Status obj
                | Some err \<Rightarrow> snd (reconcilePendingDataBackup d e ctx) = RequeueIfError err
                    \<and> stored_DataBackup (cluster_after e c (fst (reconcilePendingDataBackup d e ctx)))
                        = stored_DataBackup c)"
    using c d databackupToUpdate_phase [of e ctx] databackupToUpdate_reason [of e ctx] by blast
  with a b True show ?thesis by blast
next
  case False
  then have "DataBackupRef (Dataset_Status (ctx_Dataset ctx)) = []
           \<or> DataBackupRef (Dataset_Status (ctx_Dataset ctx)) = myDataBackupRef d ctx"
    by blast
  from no_conflict_no_conflict_failure [OF this] False show ?thesis
    by blast
qed

text \<open>
  C1 as stated fails when the status write is rejected: request r2 meets the lock of r1, the
  client rejects the write, and the reconciler returns the error instead of requeueing
  immediately, while the stored phase is still Pending.
\<close>

theorem pending_conflict_rejected_write:
  "DataBackupRef (Dataset_Status (ctx_Dataset
       (sample_ctx (sample_request ''r2'' ''pvc://claim/sub'') (sample_dataset ''default-r1'' ''alluxio'')))) \<noteq> []
   \<and> DataBackupRef (Dataset_Status (ctx_Dataset
       (sample_ctx (sample_request ''r2'' ''pvc://claim/sub'') (sample_dataset ''default-r1'' ''alluxio''))))
      \<noteq> myDataBackupRef sample_deps
       (sample_ctx (sample_request ''r2'' ''pvc://claim/sub'') (sample_dataset ''default-r1'' ''alluxio''))
   \<and> snd (reconcilePendingDataBackup sample_deps (sample_env (Some (Error ''the object has been modified'')) None)
       (sample_ctx (sample_request ''r2'' ''pvc://claim/sub'') (sample_dataset ''default-r1'' ''alluxio'')))
      = RequeueIfError (Error ''the object has been modified'')
   \<and> snd (reconcilePendingDataBackup sample_deps (sample_env (Some (Error ''the object has been modified'')) None)
       (sample_ctx (sample_request ''r2'' ''pvc://claim/sub'') (sample_dataset ''default-r1'' ''alluxio'')))
      \<noteq> RequeueImmediately
   \<and> Phase (DataBackup_Status (stored_DataBackup (cluster_after
        (sample_env (Some (Error ''the object has been modified'')) None)
        (sample_cluster (sample_request ''r2'' ''pvc://claim/sub'') (sample_dataset ''default-r1'' ''alluxio''))
        (fst (reconcilePendingDataBackup sample_deps (sample_env (Some (Error ''the object has been modified'')) None)
          (sample_ctx (sample_request ''r2'' ''pvc://claim/sub'') (sample_dataset ''default-r1'' ''alluxio'')))))))
      = PhasePending"
  by (simp add: pending_conflict cluster_after_def)

text \<open>The amended C1 at the request r2 that meets the lock of r1, the write being accepted.\<close>

theorem pending_conflict_outcome_witness:
  "DataBackupRef (Dataset_Status (ctx_Dataset
       (sample_ctx (sample_request ''r2'' ''pvc://claim/sub'') (sample_dataset ''default-r1'' ''alluxio'')))) \<noteq> []
   \<and> DataBackupRef (Dataset_Status (ctx_Dataset
       (sample_ctx (sample_request ''r2'' ''pvc://claim/sub'') (sample_dataset ''default-r1'' ''alluxio''))))
      \<noteq> myDataBackupRef sample_deps
       (sample_ctx (sample_request ''r2'' ''pvc://claim/sub'') (sample_dataset ''default-r1'' ''alluxio''))
   \<and> snd (reconcilePendingDataBackup sample_deps (sample_env None None)
       (sample_ctx (sample_request ''r2'' ''pvc://claim/sub'') (sample_dataset ''default-r1'' ''alluxio'')))
      = RequeueImmediately
   \<and> list_ex (records_failure ''conflictDataBackupRef'')
       (fst (reconcilePendingDataBackup sample_deps (sample_env None None)
         (sample_ctx (sample_request ''r2'' ''pvc://claim/sub'') (sample_dataset ''default-r1'' ''alluxio''))))
   \<and> stored_Dataset (cluster_after (sample_env None None)
        (sample_cluster (sample_request ''r2'' ''pvc://claim/sub'') (sample_dataset ''default-r1'' ''alluxio''))
        (fst (reconcilePendingDataBackup sample_deps (sample_env None None)
          (sample_ctx (sample_request ''r2'' ''pvc://claim/sub'') (sample_dataset ''default-r1'' ''alluxio'')))))
      = sample_dataset ''default-r1'' ''alluxio''"
  using pending_conflict_outcome [of sample_deps "sample_env None None"
    "sample_ctx (sample_request ''r2'' ''pvc://claim/sub'') (sample_dataset ''default-r1'' ''alluxio'')"
    "sample_cluster (sample_request ''r2'' ''pvc://claim/sub'') (sample_dataset ''default-r1'' ''alluxio'')"]
  by auto

subsection \<open>Unsupported backup paths (C2)\<close>

lemma cluster_after_probe:
  "cluster_after e c (fst (boundedRuntimeReady d e ds) @ calls) = cluster_after e c calls"
  by (simp add: cluster_after_def probe_commit)




subsection \<open>Lock acquisition (C3, C4)\<close>

text \<open>
  C3, as amended.  When a Pending reconciliation reaches lock acquisition (no conflict, runtime
  ready, path supported): if the status of the dataset has to change and the write of
  DataBackupRef is rejected, no write on the request is made, the stored request is unchanged
  (its phase stays Pending, no Failed status is recorded) and the reconciler requeues after
  20 seconds.  If the write is accepted, or is not needed because the status already matches,
  the reconciler writes the status with phase Executing; when that write is accepted the
  stored phase is Executing and it requeues immediately, and when it is rejected the stored
  request is unchanged and the error is returned for a requeue.
\<close>

theorem pending_lock_outcome:
  assumes nc: "DataBackupRef (Dataset_Status (ctx_Dataset ctx)) = []
               \<or> DataBackupRef (Dataset_Status (ctx_Dataset ctx)) = myDataBackupRef d ctx"
      and ready: "snd (boundedRuntimeReady d e (ctx_Dataset ctx))"
      and path: "prefix (PathScheme d) (BackupPath (DataBackup_Spec (ctx_DataBackup ctx)))
                 \<or> prefix (VolumeScheme d) (BackupPath (DataBackup_Spec (ctx_DataBackup ctx)))"
  shows "if DataBackupRef (Dataset_Status (ctx_Dataset ctx)) \<noteq> myDataBackupRef d ctx
            \<and> StatusUpdateDataset e (datasetToUpdate d ctx) \<noteq> None
         then snd (reconcilePendingDataBackup d e ctx) = RequeueAfterInterval (20 * Second)
              \<and> \<not> list_ex is_request_write (fst (reconcilePendingDataBackup d e ctx))
              \<and> stored_DataBackup (cluster_after e c (fst (reconcilePendingDataBackup d e ctx)))
                  = stored_DataBackup c
         else Status_Update_DataBackup (dataBackupToUpdate ctx)
                 \<in> set (fst (reconcilePendingDataBackup d e ctx))
              \<and> (case StatusUpdateDataBackup e (dataBackupToUpdate ctx) of
                   None \<Rightarrow> snd (reconcilePendingDataBackup d e ctx) = RequeueImmediately
                     \<and> Phase (DataBackup_Status (stored_DataBackup
                          (cluster_after e c (fst (reconcilePendingDataBackup d e ctx))))) = PhaseExecuting
                 | Some err \<Rightarrow> snd (reconcilePendingDataBackup d e ctx) = RequeueIfError err
                     \<and> stored_DataBackup (cluster_after e c (fst (reconcilePendingDataBackup d e ctx)))
                        = stored_DataBackup c)"
proof (cases "DataBackupRef (Dataset_Status (ctx_Dataset ctx)) = myDataBackupRef d ctx")
  case True
  note run = pending_lock_held [OF True ready path]
  show ?thesis using True
    by (simp add: run cluster_after_probe dataBackupToUpdate_phase split: option.splits)
       (simp add: cluster_after_def dataBackupToUpdate_phase)
next
  case False
  with nc have empty: "DataBackupRef (Dataset_Status (ctx_Dataset ctx)) = []" by simp
  show ?thesis
  proof (cases "StatusUpdateDataset e (datasetToUpdate d ctx)")
    case None
    note run = pending_lock_taken [OF empty False ready path None]
    show ?thesis using None
      by (simp add: run cluster_after_probe split: option.splits)
         (simp add: cluster_after_def dataBackupToUpdate_phase None)
  next
    case (Some err)
    then have rej: "StatusUpdateDataset e (datasetToUpdate d ctx) \<noteq> None" by simp
    note run = pending_lock_rejected [OF empty False ready path rej]
    show ?thesis using False rej
      by (simp add: run cluster_after_probe list_ex_iff probe_no_request_write)
         (simp add: cluster_after_def Some)
  qed
qed

text \<open>
  C3 as stated fails when the lock is taken and the second write, the one of the phase, is
  rejected: the reconciler returns the error instead of requeueing immediately, the stored
  phase is still Pending, and the dataset already carries the reference of the request.
\<close>

theorem lock_taken_phase_write_rejected:
  "StatusUpdateDataset (sample_env (Some (Error ''the object has been modified'')) None)
      (datasetToUpdate sample_deps
        (sample_ctx (sample_request ''r1'' ''pvc://claim/sub'') (sample_dataset [] ''alluxio''))) = None
   \<and> snd (reconcilePendingDataBackup sample_deps (sample_env (Some (Error ''the object has been modified'')) None)
        (sample_ctx (sample_request ''r1'' ''pvc://claim/sub'') (sample_dataset [] ''alluxio'')))
      = RequeueIfError (Error ''the object has been modified'')
   \<and> snd (reconcilePendingDataBackup sample_deps (sample_env (Some (Error ''the object has been modified'')) None)
        (sample_ctx (sample_request ''r1'' ''pvc://claim/sub'') (sample_dataset [] ''alluxio'')))
      \<noteq> RequeueImmediately
   \<and> Phase (DataBackup_Status (stored_DataBackup (cluster_after
        (sample_env (Some (Error ''the object has been modified'')) None)
        (sample_cluster (sample_request ''r1'' ''pvc://claim/sub'') (sample_dataset [] ''alluxio''))
        (fst (reconcilePendingDataBackup sample_deps (sample_env (Some (Error ''the object has been modified'')) None)
          (sample_ctx (sample_request ''r1'' ''pvc://claim/sub'') (sample_dataset [] ''alluxio'')))))))
      = PhasePending
   \<and> DataBackupRef (Dataset_Status (stored_Dataset (cluster_after
        (sample_env (Some (Error ''the object has been modified'')) None)
        (sample_cluster (sample_request ''r1'' ''pvc://claim/sub'') (sample_dataset [] ''alluxio''))
        (fst (reconcilePendingDataBackup sample_deps (sample_env (Some (Error ''the object has been modified'')) None)
          (sample_ctx (sample_request ''r1'' ''pvc://claim/sub'') (sample_dataset [] ''alluxio'')))))))
      = ''default-r1''"
  by (simp add: pending_lock_taken cluster_after_def datasetToUpdate_ref)

text \<open>
  The amended C3 at request r1 on an unlocked dataset: once with the write on the dataset
  rejected, once with both writes accepted.
\<close>

theorem pending_lock_outcome_witness:
  "snd (reconcilePendingDataBackup sample_deps (sample_env None (Some (Error ''the object has been modified'')))
        (sample_ctx (sample_request ''r1'' ''pvc://claim/sub'') (sample_dataset [] ''alluxio'')))
      = RequeueAfterInterval 20000000000
   \<and> stored_DataBackup (cluster_after (sample_env None (Some (Error ''the object has been modified'')))
        (sample_cluster (sample_request ''r1'' ''pvc://claim/sub'') (sample_dataset [] ''alluxio''))
        (fst (reconcilePendingDataBackup sample_deps (sample_env None (Some (Error ''the object has been modified'')))
          (sample_ctx (sample_request ''r1'' ''pvc://claim/sub'') (sample_dataset [] ''alluxio'')))))
      = sample_request ''r1'' ''pvc://claim/sub''
   \<and> snd (reconcilePendingDataBackup sample_deps (sample_env None None)
        (sample_ctx (sample_request ''r1'' ''pvc://claim/sub'') (sample_dataset [] ''alluxio'')))
      = RequeueImmediately
   \<and> Phase (DataBackup_Status (stored_DataBackup (cluster_after (sample_env None None)
        (sample_cluster (sample_request ''r1'' ''pvc://claim/sub'') (sample_dataset [] ''alluxio''))
        (fst (reconcilePendingDataBackup sample_deps (sample_env None None)
          (sample_ctx (sample_request ''r1'' ''pvc://claim/sub'') (sample_dataset [] ''alluxio'')))))))
      = PhaseExecuting"
proof -
  let ?ctx = "sample_ctx (sample_request ''r1'' ''pvc://claim/sub'') (sample_dataset [] ''alluxio'')"
  let ?c = "sample_cluster (sample_request ''r1'' ''pvc://claim/sub'') (sample_dataset [] ''alluxio'')"
  have nc: "DataBackupRef (Dataset_Status (ctx_Dataset ?ctx)) = []
               \<or> DataBackupRef (Dataset_Status (ctx_Dataset ?ctx)) = myDataBackupRef sample_deps ?ctx"
    by simp
  have ready: "snd (boundedRuntimeReady sample_deps (sample_env a b) (ctx_Dataset ?ctx))" for a b
    by simp
  have path: "prefix (PathScheme sample_deps) (BackupPath (DataBackup_Spec (ctx_DataBackup ?ctx)))
                 \<or> prefix (VolumeScheme sample_deps) (BackupPath (DataBackup_Spec (ctx_DataBackup ?ctx)))"
    by simp
  from pending_lock_outcome [OF nc ready path, of None "Some (Error ''the object has been modified'')" ?c]
       pending_lock_outcome [OF nc ready path, of None None ?c]
  show ?thesis by (simp add: Second_def)
qed



subsection \<open>Deletion (C6)\<close>

lemma sample_deletion [simp]:
  "DeleteReleaseIfExists (sample_env a b) n ns = None"
  "releaseLockOnTargetDataset (sample_env a b) ctx = None"
  "UpdateDataBackup (sample_env a b) obj = None"
  by (simp_all add: sample_env_def)

lemma prefix_same_length: "prefix xs ys \<Longrightarrow> length xs = length ys \<Longrightarrow> xs = ys"
  by (auto simp: prefix_def)

lemma prefix_length_one: "prefix xs (y # ys) \<Longrightarrow> length xs = 1 \<Longrightarrow> xs = [y]"
  by (cases xs) auto

lemma sample_request_fields [simp]:
  "GetDataBackupReleaseName sample_deps (DataBackup_Name (sample_request n p)) = n @ ''-charts''"
  "DataBackup_Namespace (sample_request n p) = ''default''"
  "RemoveString sample_deps (Finalizers (sample_request n p)) (Finalizer sample_deps) = []"
  "HasDeletionTimestamp sample_deps (rq\<lparr>DeletionTimestamp := Some t\<rparr>)"
  "ctx_DataBackup (sample_ctx rq ds) = rq"
  by (simp_all add: sample_deps_def sample_ctx_def sample_request_def)

text \<open>
  C6.  The steps of a deletion reconciliation are an initial segment of: delete the helm
  release, release the lock on the dataset, update the request with the finalizer removed.
  An error of the first step returns it for a requeue after that one step, an error of the
  second after those two steps, and an error of the update after the three.  The request is
  only written (the finalizer only removed) when both the deletion of the release and the
  release of the lock succeeded.  The result is NoRequeue when no step fails, and otherwise
  the error of the failing step, returned for a requeue.  The update is made when the request
  carries a deletion timestamp, which is when the method is called.
\<close>

theorem deletion_steps_in_order:
  "prefix (steps (fst (ReconcileDataBackupDeletion d e ctx)))
      [Helm_DeleteReleaseIfExists (GetDataBackupReleaseName d (DataBackup_Name (ctx_DataBackup ctx)))
         (DataBackup_Namespace (ctx_DataBackup ctx)),
       Release_Lock,
       Update_DataBackup ((ctx_DataBackup ctx)
         \<lparr>Finalizers := RemoveString d (Finalizers (ctx_DataBackup ctx)) (Finalizer d)\<rparr>)]
   \<and> (case DeleteReleaseIfExists e (GetDataBackupReleaseName d (DataBackup_Name (ctx_DataBackup ctx)))
              (DataBackup_Namespace (ctx_DataBackup ctx)) of
         Some err \<Rightarrow>
           snd (ReconcileDataBackupDeletion d e ctx) = RequeueIfError err
           \<and> length (steps (fst (ReconcileDataBackupDeletion d e ctx))) = 1
       | None \<Rightarrow>
          (case releaseLockOnTargetDataset e ctx of
             Some err \<Rightarrow>
               snd (ReconcileDataBackupDeletion d e ctx) = RequeueIfError err
               \<and> length (steps (fst (ReconcileDataBackupDeletion d e ctx))) = 2
           | None \<Rightarrow>
               if HasDeletionTimestamp d (ctx_DataBackup ctx) then
                 length (steps (fst (ReconcileDataBackupDeletion d e ctx))) = 3
                 \<and> (case UpdateDataBackup e ((ctx_DataBackup ctx)
                        \<lparr>Finalizers := RemoveString d (Finalizers (ctx_DataBackup ctx)) (Finalizer d)\<rparr>) of
                      Some err \<Rightarrow> snd (ReconcileDataBackupDeletion d e ctx) = RequeueIfError err
                    | None \<Rightarrow> snd (ReconcileDataBackupDeletion d e ctx) = NoRequeue)
               else
                 length (steps (fst (ReconcileDataBackupDeletion d e ctx))) = 2
                 \<and> snd (ReconcileDataBackupDeletion d e ctx) = NoRequeue))
   \<and> (list_ex is_request_write (fst (ReconcileDataBackupDeletion d e ctx)) \<longrightarrow>
        DeleteReleaseIfExists e (GetDataBackupReleaseName d (DataBackup_Name (ctx_DataBackup ctx)))
              (DataBackup_Namespace (ctx_DataBackup ctx)) = None
        \<and> releaseLockOnTargetDataset e ctx = None)
   \<and> (snd (ReconcileDataBackupDeletion d e ctx) = NoRequeue
        \<or> (\<exists>err. snd (ReconcileDataBackupDeletion d e ctx) = RequeueIfError err))"
  by (simp add: ReconcileDataBackupDeletion_def steps_def Let_def split: option.splits)

text \<open>
  C6 at request r1 under deletion: with every step succeeding the three steps are made in
  order, the finalizer list written is empty and the result is NoRequeue; with helm failing
  only the first step is made and its error is returned.
\<close>

theorem deletion_steps_in_order_witness:
  "list_ex is_request_write (fst (ReconcileDataBackupDeletion sample_deps (sample_env None None)
      (sample_ctx ((sample_request ''r1'' ''pvc://claim/sub'')\<lparr>DeletionTimestamp := Some 500\<rparr>)
         (sample_dataset ''default-r1'' ''alluxio''))))
   \<and> snd (ReconcileDataBackupDeletion sample_deps (sample_env None None)
      (sample_ctx ((sample_request ''r1'' ''pvc://claim/sub'')\<lparr>DeletionTimestamp := Some 500\<rparr>)
         (sample_dataset ''default-r1'' ''alluxio''))) = NoRequeue
   \<and> steps (fst (ReconcileDataBackupDeletion sample_deps (sample_env None None)
      (sample_ctx ((sample_request ''r1'' ''pvc://claim/sub'')\<lparr>DeletionTimestamp := Some 500\<rparr>)
         (sample_dataset ''default-r1'' ''alluxio''))))
      = [Helm_DeleteReleaseIfExists ''r1-charts'' ''default'', Release_Lock,
         Update_DataBackup ((sample_request ''r1'' ''pvc://claim/sub'')
           \<lparr>DeletionTimestamp := Some 500, Finalizers := []\<rparr>)]
   \<and> snd (ReconcileDataBackupDeletion sample_deps
        ((sample_env None None)\<lparr>DeleteReleaseIfExists := \<lambda>name namespace. Some (Error ''helm failed'')\<rparr>)
      (sample_ctx ((sample_request ''r1'' ''pvc://claim/sub'')\<lparr>DeletionTimestamp := Some 500\<rparr>)
         (sample_dataset ''default-r1'' ''alluxio''))) = RequeueIfError (Error ''helm failed'')
   \<and> steps (fst (ReconcileDataBackupDeletion sample_deps
        ((sample_env None None)\<lparr>DeleteReleaseIfExists := \<lambda>name namespace. Some (Error ''helm failed'')\<rparr>)
      (sample_ctx ((sample_request ''r1'' ''pvc://claim/sub'')\<lparr>DeletionTimestamp := Some 500\<rparr>)
         (sample_dataset ''default-r1'' ''alluxio''))))
      = [Helm_DeleteReleaseIfExists ''r1-charts'' ''default'']"
proof -
  let ?ctx = "sample_ctx ((sample_request ''r1'' ''pvc://claim/sub'')\<lparr>DeletionTimestamp := Some 500\<rparr>)
         (sample_dataset ''default-r1'' ''alluxio'')"
  let ?bad = "(sample_env None None)\<lparr>DeleteReleaseIfExists := \<lambda>name namespace. Some (Error ''helm failed'')\<rparr>"
  have written: "list_ex is_request_write (fst (ReconcileDataBackupDeletion sample_deps (sample_env None None) ?ctx))"
    by (simp add: ReconcileDataBackupDeletion_def Let_def)
  from deletion_steps_in_order [of sample_deps "sample_env None None" ?ctx]
  have ok: "snd (ReconcileDataBackupDeletion sample_deps (sample_env None None) ?ctx) = NoRequeue"
    and three: "length (steps (fst (ReconcileDataBackupDeletion sample_deps (sample_env None None) ?ctx))) = 3"
    and pre: "prefix (steps (fst (ReconcileDataBackupDeletion sample_deps (sample_env None None) ?ctx)))
      [Helm_DeleteReleaseIfExists ''r1-charts'' ''default'', Release_Lock,
         Update_DataBackup ((sample_request ''r1'' ''pvc://claim/sub'')
           \<lparr>DeletionTimestamp := Some 500, Finalizers := []\<rparr>)]"
    by simp_all
  have all: "steps (fst (ReconcileDataBackupDeletion sample_deps (sample_env None None) ?ctx))
      = [Helm_DeleteReleaseIfExists ''r1-charts'' ''default'', Release_Lock,
         Update_DataBackup ((sample_request ''r1'' ''pvc://claim/sub'')
           \<lparr>DeletionTimestamp := Some 500, Finalizers := []\<rparr>)]"
    using prefix_same_length [OF pre] three by simp
  from deletion_steps_in_order [of sample_deps ?bad ?ctx]
  have err: "snd (ReconcileDataBackupDeletion sample_deps ?bad ?ctx) = RequeueIfError (Error ''helm failed'')"
    and one: "length (steps (fst (ReconcileDataBackupDeletion sample_deps ?bad ?ctx))) = 1"
    and pre': "prefix (steps (fst (ReconcileDataBackupDeletion sample_deps ?bad ?ctx)))
      [Helm_DeleteReleaseIfExists ''r1-charts'' ''default'', Release_Lock,
         Update_DataBackup ((sample_request ''r1'' ''pvc://claim/sub'')
           \<lparr>DeletionTimestamp := Some 500, Finalizers := []\<rparr>)]"
    by simp_all
  have first: "steps (fst (ReconcileDataBackupDeletion sample_deps ?bad ?ctx))
      = [Helm_DeleteReleaseIfExists ''r1-charts'' ''default'']"
    using prefix_length_one [OF pre' one] .
  from written ok all err first show ?thesis by simp
qed

end
